theory Spec2Isabelle
  imports Main "HOL-Library.Multiset"
begin

section \<open>Exceptions and Python values\<close>

text \<open>
  The module \<^verbatim>\<open>backend/app/websites.py\<close> is embedded function by function.
  A raised exception is a value of type \<open>exn\<close>; a handler that may raise returns
  \<open>exn + 'a\<close> with \<open>Inl\<close> the exception. Strings are ASCII character lists.
\<close>

datatype exn =
    HTTPException nat string
  | ValidationError string
  | AttributeError string
  | IndexError string
  | ValueError string
  | TypeError string
  | OSError string
  | RequestError string

text \<open>
  The value bound to the variable \<^verbatim>\<open>icon_url\<close> of \<^verbatim>\<open>create_website\<close> is either
  the dictionary returned by \<^verbatim>\<open>get_icon\<close> or the \<^verbatim>\<open>str\<close> returned by
  \<^verbatim>\<open>save_icon_image\<close>; Python's \<^verbatim>\<open>None\<close> is \<open>None\<close> of \<open>pyval option\<close>.
\<close>

datatype pyval = PyStr string | PyDict "(string \<times> string) list"

section \<open>String methods\<close>

text \<open>The methods of \<^verbatim>\<open>str\<close> that the module calls, on ASCII strings.\<close>

definition replace_char :: "char \<Rightarrow> char \<Rightarrow> string \<Rightarrow> string" where
  \<comment> \<open>\<^verbatim>\<open>s.replace(old, new)\<close> for one-character \<^verbatim>\<open>old\<close> and \<^verbatim>\<open>new\<close>\<close>
  "replace_char old new s = map (\<lambda>c. if c = old then new else c) s"

definition remove_char :: "char \<Rightarrow> string \<Rightarrow> string" where
  \<comment> \<open>\<^verbatim>\<open>s.replace(old, "")\<close>\<close>
  "remove_char old s = filter (\<lambda>c. c \<noteq> old) s"

definition startswith :: "string \<Rightarrow> string \<Rightarrow> bool" where
  "startswith s p = (take (length p) s = p)"

definition endswith :: "string \<Rightarrow> string \<Rightarrow> bool" where
  "endswith s p = (length p \<le> length s \<and> drop (length s - length p) s = p)"

definition is_digit_char :: "char \<Rightarrow> bool" where
  "is_digit_char c = (c \<in> set ''0123456789'')"

definition isdigit :: "string \<Rightarrow> bool" where
  \<comment> \<open>\<^verbatim>\<open>"".isdigit()\<close> is \<^verbatim>\<open>False\<close>\<close>
  "isdigit s = (s \<noteq> [] \<and> list_all is_digit_char s)"

definition upper_char :: "char \<Rightarrow> char" where
  "upper_char c =
     (case map_of (zip ''abcdefghijklmnopqrstuvwxyz'' ''ABCDEFGHIJKLMNOPQRSTUVWXYZ'') c of
        None \<Rightarrow> c | Some u \<Rightarrow> u)"

definition upper :: "string \<Rightarrow> string" where
  "upper s = map upper_char s"

definition is_space_char :: "char \<Rightarrow> bool" where
  \<comment> \<open>the ASCII characters for which \<^verbatim>\<open>str.isspace\<close> holds\<close>
  "is_space_char c =
     (c \<in> set [CHR 0x09, CHR 0x0A, CHR 0x0B, CHR 0x0C, CHR 0x0D,
                CHR 0x1C, CHR 0x1D, CHR 0x1E, CHR 0x1F, CHR 0x20])"

definition strip :: "string \<Rightarrow> string" where
  "strip s = rev (dropWhile is_space_char (rev (dropWhile is_space_char s)))"

section \<open>The libraries\<close>

text \<open>
  The module calls \<^verbatim>\<open>httpx\<close>, \<^verbatim>\<open>bs4\<close>, \<^verbatim>\<open>urllib.parse\<close> and \<^verbatim>\<open>tldextract\<close>. None of
  them is part of the module: what the network and the parsers answer is a field of the
  record \<open>lib\<close>, and every theorem with a variable \<open>L\<close> holds for every value of that
  record. What does not depend on the network, the keywords that the client accepts, is
  written out.
\<close>

record response =
  is_error :: bool   \<comment> \<open>\<^verbatim>\<open>raise_for_status()\<close> raises\<close>
  resp_text :: string   \<comment> \<open>\<^verbatim>\<open>response.text\<close>\<close>

text \<open>A \<^verbatim>\<open>bs4\<close> tag is the association list of its attributes.\<close>

type_synonym tag = "(string \<times> string) list"

definition tag_get :: "tag \<Rightarrow> string \<Rightarrow> string option" where
  "tag_get t k = map_of t k"

record parse_result =
  hostname :: "string option"   \<comment> \<open>\<^verbatim>\<open>urlparse(url).hostname\<close>, which may be \<^verbatim>\<open>None\<close>\<close>
  netloc :: string              \<comment> \<open>\<^verbatim>\<open>urlparse(url).netloc\<close>\<close>

record lib =
  http_request :: "string \<Rightarrow> exn + response"
    \<comment> \<open>what a well-formed \<^verbatim>\<open>GET\<close> of the URL through \<^verbatim>\<open>httpx\<close> gives\<close>
  soup_find :: "string \<Rightarrow> string \<Rightarrow> string \<Rightarrow> string \<Rightarrow> exn + tag option"
    \<comment> \<open>\<^verbatim>\<open>BeautifulSoup(text, "html.parser").find(name, attrs={k: v})\<close>\<close>
  urljoin :: "string \<Rightarrow> string \<Rightarrow> exn + string"
  urlparse :: "string \<Rightarrow> exn + parse_result"
  tld_domain :: "string \<Rightarrow> string"
    \<comment> \<open>\<^verbatim>\<open>tldextract.extract(url).domain\<close>\<close>

text \<open>
  \<^verbatim>\<open>httpx.AsyncClient(...)\<close> and its method \<^verbatim>\<open>get(url, ...)\<close> declare their keyword
  parameters one by one and take no others: Python raises \<^verbatim>\<open>TypeError\<close> on a keyword
  that the callee does not declare. \<^verbatim>\<open>verify\<close> is a parameter of the constructor and
  not of \<^verbatim>\<open>get\<close>. The lists are those of the releases whose constructor has
  \<^verbatim>\<open>follow_redirects\<close>, which both callers below pass.
\<close>

definition client_keywords :: "string list" where
  "client_keywords =
     [''auth'', ''params'', ''headers'', ''cookies'', ''verify'', ''cert'', ''http1'', ''http2'',
      ''proxy'', ''mounts'', ''timeout'', ''follow_redirects'', ''limits'', ''max_redirects'',
      ''event_hooks'', ''base_url'', ''transport'', ''trust_env'', ''default_encoding'']"

definition get_keywords :: "string list" where
  "get_keywords =
     [''params'', ''headers'', ''cookies'', ''auth'', ''follow_redirects'', ''timeout'',
      ''extensions'']"

text \<open>
  \<^verbatim>\<open>async with httpx.AsyncClient(**c) as client: await client.get(url, **g)\<close>, given
  the keyword names of \<^verbatim>\<open>c\<close> and of \<^verbatim>\<open>g\<close>.
\<close>

definition client_get :: "lib \<Rightarrow> string list \<Rightarrow> string list \<Rightarrow> string \<Rightarrow> exn + response" where
  "client_get L c g url =
     (case filter (\<lambda>k. k \<notin> set client_keywords) c of
        k # _ \<Rightarrow> Inl (TypeError k)
      | [] \<Rightarrow>
          (case filter (\<lambda>k. k \<notin> set get_keywords) g of
             k # _ \<Rightarrow> Inl (TypeError k)
           | [] \<Rightarrow> http_request L url))"

section \<open>Description of a page\<close>

text \<open>The body of the \<^verbatim>\<open>try\<close> block of \<^verbatim>\<open>fetch_website_description\<close>.\<close>

definition fetch_description_try :: "lib \<Rightarrow> string \<Rightarrow> exn + string" where
  "fetch_description_try L url =
     (case client_get L [''follow_redirects'', ''verify''] [''headers''] url of
        Inl e \<Rightarrow> Inl e
      | Inr r \<Rightarrow>
          if is_error r then Inl (RequestError ''status'')
          else
            (case soup_find L (resp_text r) ''meta'' ''name'' ''description'' of
               Inl e \<Rightarrow> Inl e
             | Inr None \<Rightarrow> Inr ''''
             | Inr (Some description_tag) \<Rightarrow>
                 Inr (strip (case tag_get description_tag ''content'' of
                               None \<Rightarrow> '''' | Some c \<Rightarrow> c))))"

text \<open>\<^verbatim>\<open>except Exception\<close>: every exception of the body becomes the empty string.\<close>

definition fetch_website_description :: "lib \<Rightarrow> string \<Rightarrow> string" where
  "fetch_website_description L url =
     (case fetch_description_try L url of Inl e \<Rightarrow> '''' | Inr s \<Rightarrow> s)"

section \<open>Icons\<close>

text \<open>
  The image of \<^verbatim>\<open>generate_letter_icon\<close> is the letter it draws: the canvas is 64 by 64
  with a fixed background, a circular mask and a fixed font, none of which depends on
  the input.
\<close>

datatype image = LetterIcon string

text \<open>
  The icon directory: the files written so far, and which paths can be written.
  \<^verbatim>\<open>aiofiles.open(path, "wb")\<close> raises \<^verbatim>\<open>OSError\<close> on a path that cannot.
\<close>

record filesystem =
  files :: "string \<rightharpoonup> image"
  writable :: "string \<Rightarrow> bool"

definition save_icon_image :: "filesystem \<Rightarrow> image \<Rightarrow> string \<Rightarrow> exn + filesystem \<times> string" where
  "save_icon_image fs img filename =
     (let filename1 = replace_char (CHR '':'') (CHR ''_'') filename;
          path0 = ''./icons/'' @ filename1;
          path = (if \<not> endswith path0 ''.png'' then path0 @ ''.png'' else path0)
      in if writable fs path
         then Inr (fs \<lparr> files := (files fs)(path \<mapsto> img) \<rparr>, path)
         else Inl (OSError path))"

text \<open>
  \<^verbatim>\<open>soup.find("link", rel="icon") or soup.find("link", rel="shortcut icon")\<close>: a tag is
  truthy, so the second search runs only when the first finds nothing.
\<close>

definition find_icon_link :: "lib \<Rightarrow> string \<Rightarrow> exn + tag option" where
  "find_icon_link L html =
     (case soup_find L html ''link'' ''rel'' ''icon'' of
        Inl e \<Rightarrow> Inl e
      | Inr (Some link) \<Rightarrow> Inr (Some link)
      | Inr None \<Rightarrow> soup_find L html ''link'' ''rel'' ''shortcut icon'')"

text \<open>
  The body of the \<^verbatim>\<open>try\<close> block of \<^verbatim>\<open>get_icon\<close>; its value is a dictionary. The
  client is built with \<^verbatim>\<open>follow_redirects\<close> alone, and \<^verbatim>\<open>verify\<close> goes to \<^verbatim>\<open>get\<close>.
\<close>

definition get_icon_try :: "lib \<Rightarrow> string \<Rightarrow> exn + pyval" where
  "get_icon_try L url =
     (case client_get L [''follow_redirects''] [''verify''] url of
        Inl e \<Rightarrow> Inl e
      | Inr r \<Rightarrow>
          if is_error r then Inl (RequestError ''status'')
          else
            (case find_icon_link L (resp_text r) of
               Inl e \<Rightarrow> Inl e
             | Inr None \<Rightarrow> Inl (HTTPException 404 ''Icon not found'')
             | Inr (Some link) \<Rightarrow>
                 (case tag_get link ''href'' of
                    None \<Rightarrow> Inl (HTTPException 404 ''Icon not found'')
                  | Some href \<Rightarrow>
                      if href = [] then Inl (HTTPException 404 ''Icon not found'')
                      else if \<not> (startswith href ''http://'' \<or> startswith href ''https://'')
                      then (case urljoin L url href of
                              Inl e \<Rightarrow> Inl e
                            | Inr joined \<Rightarrow> Inr (PyDict [(''icon_url'', joined)]))
                      else Inr (PyDict [(''icon_url'', href)]))))"

text \<open>\<^verbatim>\<open>except Exception\<close>: every exception of the body becomes \<^verbatim>\<open>None\<close>.\<close>

definition get_icon :: "lib \<Rightarrow> string \<Rightarrow> pyval option" where
  "get_icon L url = (case get_icon_try L url of Inl e \<Rightarrow> None | Inr v \<Rightarrow> Some v)"

text \<open>
  \<^verbatim>\<open>generate_letter_icon\<close>. \<^verbatim>\<open>parsed_url.hostname.replace\<close> on a hostname that is
  \<^verbatim>\<open>None\<close> raises \<^verbatim>\<open>AttributeError\<close>; indexing an empty string raises \<^verbatim>\<open>IndexError\<close>.
\<close>

definition first_upper :: "string \<Rightarrow> exn + string" where
  \<comment> \<open>\<^verbatim>\<open>s[0].upper()\<close>\<close>
  "first_upper s = (case s of [] \<Rightarrow> Inl (IndexError ''string index out of range'') | c # _ \<Rightarrow> Inr (upper [c]))"

definition generate_letter_icon :: "lib \<Rightarrow> string \<Rightarrow> exn + image" where
  "generate_letter_icon L url =
     (let domain = tld_domain L url in
      case urlparse L url of
        Inl e \<Rightarrow> Inl e
      | Inr parsed_url \<Rightarrow>
          (case hostname parsed_url of
             None \<Rightarrow> Inl (AttributeError ''replace'')
           | Some h \<Rightarrow>
               (case (if isdigit (remove_char (CHR ''.'') h) then first_upper h
                      else if domain \<noteq> [] then first_upper domain else Inr ''U'') of
                  Inl e \<Rightarrow> Inl e
                | Inr letter \<Rightarrow> Inr (LetterIcon letter))))"

section \<open>The persistent store\<close>

text \<open>
  \<^verbatim>\<open>models.Website\<close> as the handlers use it: the six columns written by
  \<^verbatim>\<open>create_website\<close> and the generated primary key. The table is the list of its rows;
  \<^verbatim>\<open>models.Category\<close> is read only through its primary key, so it is a map from id to name.
\<close>

record website_row =
  row_id :: int
  row_name :: string
  row_url :: string
  row_icon_url :: pyval
  row_description :: string
  row_order :: int
  row_category_id :: "int option"

record db =
  websites :: "website_row list"
  categories :: "int \<rightharpoonup> string"

text \<open>\<^verbatim>\<open>schemas.Website\<close>: the composed record returned to the caller.\<close>

record website_out =
  ws_id :: int
  ws_name :: string
  ws_icon_url :: pyval
  ws_description :: string
  ws_order :: int
  ws_url :: string
  ws_category_id :: "int option"
  ws_category_name :: "string option"

text \<open>
  \<^verbatim>\<open>schemas.WebsiteCreate\<close>: the four fields the handlers read, and the names of the
  fields the request set, which is what \<^verbatim>\<open>model_dump(exclude_unset=True)\<close> keeps.
\<close>

record website_create =
  wc_name :: string
  wc_url :: string
  wc_order :: int
  wc_category_id :: "int option"
  wc_fields_set :: "string list"

record paginated_websites =
  data :: "website_out list"
  total :: nat

text \<open>
  The left outer join with \<^verbatim>\<open>models.Category\<close> on the primary key: one result row per
  website, the category name \<^verbatim>\<open>NULL\<close> when the website has no category or the category
  does not exist.
\<close>

definition category_name_of :: "db \<Rightarrow> int option \<Rightarrow> string option" where
  "category_name_of d c = (case c of None \<Rightarrow> None | Some k \<Rightarrow> categories d k)"

definition to_schema :: "db \<Rightarrow> website_row \<Rightarrow> website_out" where
  "to_schema d w =
     \<lparr> ws_id = row_id w, ws_name = row_name w, ws_icon_url = row_icon_url w,
       ws_description = row_description w, ws_order = row_order w, ws_url = row_url w,
       ws_category_id = row_category_id w,
       ws_category_name = category_name_of d (row_category_id w) \<rparr>"

text \<open>
  \<^verbatim>\<open>.order_by(models.Website.order)\<close>: ascending by the order column. SQL leaves the
  order among equal keys open; the model keeps the table order there (a stable sort).
\<close>

definition order_by_order :: "website_row list \<Rightarrow> website_row list" where
  "order_by_order ws = sort_key row_order ws"

section \<open>Creation\<close>

text \<open>
  Lines 157 to 163 of \<^verbatim>\<open>create_website\<close>: the value bound to \<^verbatim>\<open>icon_url\<close>. A
  dictionary with an entry is truthy, so the fallback runs exactly when \<^verbatim>\<open>get_icon\<close>
  returns \<^verbatim>\<open>None\<close>. Nothing here catches an exception.
\<close>

definition resolve_icon :: "lib \<Rightarrow> filesystem \<Rightarrow> string \<Rightarrow> exn + filesystem \<times> pyval" where
  "resolve_icon L fs url =
     (case get_icon L url of
        Some icon_url \<Rightarrow> Inr (fs, icon_url)
      | None \<Rightarrow>
          (case generate_letter_icon L url of
             Inl e \<Rightarrow> Inl e
           | Inr default_icon \<Rightarrow>
               (case urlparse L url of
                  Inl e \<Rightarrow> Inl e
                | Inr parsed_url \<Rightarrow>
                    (case save_icon_image fs default_icon (netloc parsed_url @ ''_default.png'') of
                       Inl e \<Rightarrow> Inl e
                     | Inr (fs', path) \<Rightarrow> Inr (fs', PyStr path)))))"

text \<open>The primary key that the store generates for a new row.\<close>

definition next_id :: "db \<Rightarrow> int" where
  "next_id d = foldr max (map row_id (websites d)) 0 + 1"

definition create_website ::
  "lib \<Rightarrow> filesystem \<Rightarrow> db \<Rightarrow> website_create \<Rightarrow> exn + filesystem \<times> db \<times> website_out" where
  "create_website L fs d website =
     (let url = wc_url website in
      case resolve_icon L fs url of
        Inl e \<Rightarrow> Inl e
      | Inr (fs', icon_url) \<Rightarrow>
          (let description = fetch_website_description L url;
               db_website =
                 \<lparr> row_id = next_id d, row_name = wc_name website, row_url = url,
                   row_icon_url = icon_url, row_description = description,
                   row_order = wc_order website,
                   row_category_id = wc_category_id website \<rparr>;
               d' = d \<lparr> websites := websites d @ [db_website] \<rparr>
           in Inr (fs', d', to_schema d' db_website)))"

section \<open>Listing\<close>

text \<open>
  \<^verbatim>\<open>Query(None, ge=0)\<close> and \<^verbatim>\<open>Query(None, ge=1)\<close>: the framework rejects a request whose
  \<^verbatim>\<open>skip\<close> is negative or whose \<^verbatim>\<open>limit\<close> is below one before the handler body runs.
\<close>

definition query_valid :: "int option \<Rightarrow> int option \<Rightarrow> bool" where
  "query_valid skip limit =
     ((case skip of None \<Rightarrow> True | Some s \<Rightarrow> 0 \<le> s) \<and>
      (case limit of None \<Rightarrow> True | Some l \<Rightarrow> 1 \<le> l))"

text \<open>Python's \<^verbatim>\<open>x or d\<close> on an optional integer: \<^verbatim>\<open>None\<close> and \<^verbatim>\<open>0\<close> are falsy.\<close>

definition or_default :: "int option \<Rightarrow> int \<Rightarrow> int" where
  "or_default x d = (case x of None \<Rightarrow> d | Some v \<Rightarrow> if v = 0 then d else v)"

text \<open>Python's truth value of \<^verbatim>\<open>Optional[bool]\<close>.\<close>

definition truthy :: "bool option \<Rightarrow> bool" where
  "truthy b = (case b of None \<Rightarrow> False | Some v \<Rightarrow> v)"

definition read_websites ::
  "db \<Rightarrow> int option \<Rightarrow> int option \<Rightarrow> bool option \<Rightarrow> exn + paginated_websites" where
  "read_websites d skip limit all_data =
     (if \<not> query_valid skip limit then Inl (ValidationError ''query'')
      else if truthy all_data then
        (let response_data = map (to_schema d) (order_by_order (websites d))
         in Inr \<lparr> data = response_data, total = length response_data \<rparr>)
      else
        (let row_count = length (websites d);
             response_data =
               map (to_schema d)
                 (take (nat (or_default limit 10))
                    (drop (nat (or_default skip 0)) (order_by_order (websites d))))
         in Inr \<lparr> data = response_data, total = row_count \<rparr>))"

section \<open>Update\<close>

text \<open>\<^verbatim>\<open>db.get(models.Website, website_id)\<close>: the row with that primary key, if any.\<close>

definition db_get :: "db \<Rightarrow> int \<Rightarrow> website_row option" where
  "db_get d k = find (\<lambda>w. row_id w = k) (websites d)"

definition apply_fields :: "website_create \<Rightarrow> website_row \<Rightarrow> website_row" where
  "apply_fields p w =
     w \<lparr> row_name := (if ''name'' \<in> set (wc_fields_set p) then wc_name p else row_name w),
         row_url := (if ''url'' \<in> set (wc_fields_set p) then wc_url p else row_url w),
         row_order := (if ''order'' \<in> set (wc_fields_set p) then wc_order p else row_order w),
         row_category_id :=
           (if ''category_id'' \<in> set (wc_fields_set p) then wc_category_id p
            else row_category_id w) \<rparr>"

text \<open>
  The handler returns the store it leaves behind together with its outcome, so that the
  error path shows its effect on the store as well.
\<close>

definition update_website :: "db \<Rightarrow> int \<Rightarrow> website_create \<Rightarrow> db \<times> (exn + website_out)" where
  "update_website d website_id website =
     (case db_get d website_id of
        None \<Rightarrow> (d, Inl (HTTPException 404 ''Website not found''))
      | Some db_website \<Rightarrow>
          (let w' = apply_fields website db_website;
               d' = d \<lparr> websites :=
                      map (\<lambda>w. if row_id w = website_id then w' else w) (websites d) \<rparr>
           in (d', Inr (to_schema d' w'))))"

section \<open>A library for concrete runs\<close>

text \<open>
  What the network and the parsers answer on five inputs, for evaluating the handlers
  there:
  \<^item> \<^verbatim>\<open>https://a.com/page\<close> is served with an icon link \<^verbatim>\<open>/f.ico\<close> and a description;
  \<^item> \<^verbatim>\<open>http://example.co.uk/\<close> is served with neither;
  \<^item> \<^verbatim>\<open>http://192.168.1.1:8080/x\<close> and \<^verbatim>\<open>http://co.uk/\<close> are unreachable;
  \<^item> \<^verbatim>\<open>example.com\<close> has no scheme: the client refuses it, and \<^verbatim>\<open>urlparse\<close> puts the
    whole string in the path, so that \<^verbatim>\<open>hostname\<close> is \<^verbatim>\<open>None\<close> and \<^verbatim>\<open>netloc\<close> is empty.
\<close>

definition page_a :: string where
  "page_a = ''<link rel=icon href=/f.ico><meta name=description content=_ A site _>''"

definition lib_example :: lib where
  "lib_example =
     \<lparr> http_request = (\<lambda>u.
         if u = ''https://a.com/page'' then Inr \<lparr> is_error = False, resp_text = page_a \<rparr>
         else if u = ''http://example.co.uk/'' then Inr \<lparr> is_error = False, resp_text = '''' \<rparr>
         else Inl (RequestError ''connect'')),
       soup_find = (\<lambda>html n k v.
         if html = page_a \<and> n = ''link'' \<and> k = ''rel'' \<and> v = ''icon''
         then Inr (Some [(''rel'', ''icon''), (''href'', ''/f.ico'')])
         else if html = page_a \<and> n = ''meta'' \<and> k = ''name'' \<and> v = ''description''
         then Inr (Some [(''name'', ''description''), (''content'', '' A site '')])
         else Inr None),
       urljoin = (\<lambda>b u.
         if b = ''https://a.com/page'' \<and> u = ''/f.ico'' then Inr ''https://a.com/f.ico''
         else Inl (ValueError ''urljoin'')),
       urlparse = (\<lambda>u.
         if u = ''https://a.com/page'' then Inr \<lparr> hostname = Some ''a.com'', netloc = ''a.com'' \<rparr>
         else if u = ''http://example.co.uk/''
         then Inr \<lparr> hostname = Some ''example.co.uk'', netloc = ''example.co.uk'' \<rparr>
         else if u = ''http://192.168.1.1:8080/x''
         then Inr \<lparr> hostname = Some ''192.168.1.1'', netloc = ''192.168.1.1:8080'' \<rparr>
         else if u = ''http://co.uk/'' then Inr \<lparr> hostname = Some ''co.uk'', netloc = ''co.uk'' \<rparr>
         else Inr \<lparr> hostname = None, netloc = '''' \<rparr>),
       tld_domain = (\<lambda>u.
         if u = ''https://a.com/page'' then ''a''
         else if u = ''http://example.co.uk/'' then ''example''
         else if u = ''example.com'' then ''example''
         else '''') \<rparr>"

text \<open>An empty icon directory in which every path can be written, and one in which none can.\<close>

definition fs_empty :: filesystem where
  "fs_empty = \<lparr> files = Map.empty, writable = (\<lambda>p. True) \<rparr>"

definition fs_readonly :: filesystem where
  "fs_readonly = \<lparr> files = Map.empty, writable = (\<lambda>p. False) \<rparr>"

definition db_empty :: db where
  "db_empty = \<lparr> websites = [], categories = Map.empty \<rparr>"

definition row_example :: "int \<Rightarrow> int \<Rightarrow> website_row" where
  "row_example k n =
     \<lparr> row_id = k, row_name = ''site'', row_url = ''https://a.com/page'',
       row_icon_url = PyStr ''./icons/a.com_default.png'', row_description = '''',
       row_order = n, row_category_id = None \<rparr>"

definition db_three :: db where
  "db_three =
     \<lparr> websites = [row_example 1 30, row_example 2 10, row_example 3 20],
       categories = Map.empty \<rparr>"


definition website_a :: website_create where
  "website_a =
     \<lparr> wc_name = ''A'', wc_url = ''https://a.com/page'', wc_order = 1,
       wc_category_id = None, wc_fields_set = [''name'', ''url'', ''order''] \<rparr>"

section \<open>Properties of the listing\<close>

lemma sorted_order_by_order: "sorted (map row_order (order_by_order ws))"
  by (simp add: order_by_order_def)



lemma ws_order_to_schema: "ws_order \<circ> to_schema d = row_order"
  by (simp add: fun_eq_iff to_schema_def)


text \<open>
  C6. A listing request with \<^verbatim>\<open>all_data\<close> true that passes the parameter validation
  returns a result whose \<open>total\<close> is the length of its \<open>data\<close>, and \<open>data\<close> is sorted
  non-decreasing by the order field.
\<close>

theorem read_websites_all_data_total_sorted:
  assumes "query_valid skip limit" and "truthy all_data"
  shows "\<exists>r. read_websites d skip limit all_data = Inr r
           \<and> total r = length (data r) \<and> sorted (map ws_order (data r))"
  using assms
  by (simp add: read_websites_def Let_def ws_order_to_schema sorted_order_by_order)

theorem read_websites_all_data_total_sorted_witness:
  "query_valid None None \<and> truthy (Some True)
   \<and> (\<exists>r. read_websites db_three None None (Some True) = Inr r
          \<and> total r = length (data r) \<and> sorted (map ws_order (data r)))"
  using read_websites_all_data_total_sorted [of None None "Some True" db_three]
  by (simp add: query_valid_def truthy_def)






section \<open>Properties of the update\<close>

lemma db_get_None: "k \<notin> row_id ` set (websites d) \<Longrightarrow> db_get d k = None"
  by (auto simp add: db_get_def find_None_iff)

text \<open>
  C8. When no row of the table has the given id, \<^verbatim>\<open>update_website\<close> raises the 404
  \<^verbatim>\<open>HTTPException\<close> and the store it leaves behind is the store it was given.
\<close>

theorem update_website_not_found:
  assumes "k \<notin> row_id ` set (websites d)"
  shows "update_website d k w = (d, Inl (HTTPException 404 ''Website not found''))"
  by (simp add: update_website_def db_get_None [OF assms])

theorem update_website_not_found_witness:
  "7 \<notin> row_id ` set (websites db_three)
   \<and> update_website db_three 7 website_a
       = (db_three, Inl (HTTPException 404 ''Website not found''))"
proof -
  have h: "7 \<notin> row_id ` set (websites db_three)"
    by (simp add: db_three_def row_example_def)
  from update_website_not_found [OF h, of website_a] h show ?thesis by simp
qed

section \<open>Properties of the description\<close>

lemma strip_decomp:
  "\<exists>a b. c = a @ strip c @ b \<and> list_all is_space_char a \<and> list_all is_space_char b"
proof -
  define m where "m = dropWhile is_space_char c"
  have c: "c = takeWhile is_space_char c @ m"
    by (simp add: m_def)
  have "rev (takeWhile is_space_char (rev m) @ dropWhile is_space_char (rev m)) = m"
    by (simp only: takeWhile_dropWhile_id rev_rev_ident)
  then have m: "m = strip c @ rev (takeWhile is_space_char (rev m))"
    by (simp only: rev_append strip_def m_def)
  have a: "list_all is_space_char (takeWhile is_space_char c)"
    by (auto simp add: list_all_iff dest: set_takeWhileD)
  have b: "list_all is_space_char (rev (takeWhile is_space_char (rev m)))"
    by (auto simp add: list_all_iff dest: set_takeWhileD)
  from c m have "c = takeWhile is_space_char c @ strip c @ rev (takeWhile is_space_char (rev m))"
    by simp
  with a b show ?thesis by blast
qed

lemma strip_ends:
  assumes "strip c \<noteq> []"
  shows "\<not> is_space_char (hd (strip c)) \<and> \<not> is_space_char (last (strip c))"
proof -
  define m where "m = dropWhile is_space_char c"
  define k where "k = dropWhile is_space_char (rev m)"
  have s: "strip c = rev k" by (simp add: strip_def m_def k_def)
  with assms have k: "k \<noteq> []" by simp
  then have "\<not> is_space_char (hd k)" unfolding k_def by (rule hd_dropWhile)
  then have l: "\<not> is_space_char (last (strip c))" using k by (simp add: s last_rev)
  from k have mne: "m \<noteq> []" by (auto simp add: k_def)
  then have hm: "\<not> is_space_char (hd m)" unfolding m_def by (rule hd_dropWhile)
  have "rev m = takeWhile is_space_char (rev m) @ k" by (simp add: k_def)
  then have "last (rev m) = last k" using k by (metis last_appendR)
  then have "hd m = last k" using mne by (simp add: last_rev)
  then have "hd (strip c) = hd m" using k by (simp add: s hd_rev)
  with hm l show ?thesis by simp
qed

lemma strip_Nil: "strip [] = []" by (simp add: strip_def)

text \<open>
  C9. \<^verbatim>\<open>fetch_website_description\<close> is a total function to strings: it never raises.
  Its value is the empty string when the request raises, when the status is an error,
  when the parser or the search raises, when no \<^verbatim>\<open>meta\<close> tag named \<^verbatim>\<open>description\<close> is
  found, and when the tag found has no \<^verbatim>\<open>content\<close> attribute. Otherwise it is the
  \<^verbatim>\<open>content\<close> attribute without its leading and trailing whitespace: the attribute is
  the value with whitespace before and after, and the value neither starts nor ends with
  whitespace.
\<close>

theorem fetch_website_description_result:
  "(client_get L [''follow_redirects'', ''verify''] [''headers''] url = Inl e
      \<longrightarrow> fetch_website_description L url = '''')
   \<and> (client_get L [''follow_redirects'', ''verify''] [''headers''] url = Inr r \<longrightarrow>
        (is_error r \<longrightarrow> fetch_website_description L url = '''')
      \<and> (\<not> is_error r \<longrightarrow>
           (soup_find L (resp_text r) ''meta'' ''name'' ''description'' = Inl e'
              \<longrightarrow> fetch_website_description L url = '''')
         \<and> (soup_find L (resp_text r) ''meta'' ''name'' ''description'' = Inr None
              \<longrightarrow> fetch_website_description L url = '''')
         \<and> (soup_find L (resp_text r) ''meta'' ''name'' ''description'' = Inr (Some t) \<longrightarrow>
              (tag_get t ''content'' = None \<longrightarrow> fetch_website_description L url = '''')
            \<and> (tag_get t ''content'' = Some c \<longrightarrow>
                  fetch_website_description L url = strip c
                \<and> (\<exists>a b. c = a @ strip c @ b
                       \<and> list_all is_space_char a \<and> list_all is_space_char b)
                \<and> (strip c \<noteq> [] \<longrightarrow>
                      \<not> is_space_char (hd (strip c)) \<and> \<not> is_space_char (last (strip c)))))))"
  using strip_decomp [of c] strip_ends [of c]
  by (simp add: fetch_website_description_def fetch_description_try_def strip_Nil)

lemma client_get_description:
  "client_get L [''follow_redirects'', ''verify''] [''headers''] url = http_request L url"
  by (simp add: client_get_def client_keywords_def get_keywords_def)

lemma lib_example_simps:
  "client_get lib_example [''follow_redirects'', ''verify''] [''headers''] ''https://a.com/page''
     = Inr \<lparr> is_error = False, resp_text = page_a \<rparr>"
  "soup_find lib_example page_a ''meta'' ''name'' ''description''
     = Inr (Some [(''name'', ''description''), (''content'', '' A site '')])"
  by (simp_all add: client_get_description) (simp_all add: lib_example_def)

theorem fetch_website_description_result_witness:
  "client_get lib_example [''follow_redirects'', ''verify''] [''headers''] ''https://a.com/page''
     = Inr \<lparr> is_error = False, resp_text = page_a \<rparr>
   \<and> \<not> is_error \<lparr> is_error = False, resp_text = page_a \<rparr>
   \<and> soup_find lib_example page_a ''meta'' ''name'' ''description''
       = Inr (Some [(''name'', ''description''), (''content'', '' A site '')])
   \<and> tag_get [(''name'', ''description''), (''content'', '' A site '')] ''content'' = Some '' A site ''
   \<and> fetch_website_description lib_example ''https://a.com/page'' = ''A site''
   \<and> client_get lib_example [''follow_redirects'', ''verify''] [''headers''] ''http://co.uk/''
       = Inl (RequestError ''connect'')
   \<and> fetch_website_description lib_example ''http://co.uk/'' = ''''"
proof -
  have s: "strip '' A site '' = ''A site''"
    by (simp add: strip_def is_space_char_def)
  have g: "client_get lib_example [''follow_redirects'', ''verify''] [''headers''] ''http://co.uk/''
       = Inl (RequestError ''connect'')"
    by (simp add: client_get_description) (simp add: lib_example_def)
  have t: "tag_get [(''name'', ''description''), (''content'', '' A site '')] ''content'' = Some '' A site ''"
    by (simp add: tag_get_def)
  from fetch_website_description_result
    [of lib_example "''https://a.com/page''" "RequestError ''connect''"
        "\<lparr> is_error = False, resp_text = page_a \<rparr>" "RequestError ''connect''"
        "[(''name'', ''description''), (''content'', '' A site '')]" "'' A site ''"]
     fetch_website_description_result
    [of lib_example "''http://co.uk/''" "RequestError ''connect''"]
     lib_example_simps s g t
  show ?thesis by simp
qed

section \<open>Properties of the request of \<^verbatim>\<open>get_icon\<close>\<close>

text \<open>
  \<^verbatim>\<open>get_icon\<close> hands \<^verbatim>\<open>verify\<close> to \<^verbatim>\<open>get\<close>, which does not declare it: the call raises
  \<^verbatim>\<open>TypeError\<close> inside the \<^verbatim>\<open>try\<close> block before any request is sent, and the handler
  returns \<^verbatim>\<open>None\<close>, whatever the URL and whatever the page behind it.
\<close>

lemma client_get_icon:
  "client_get L [''follow_redirects''] [''verify''] url = Inl (TypeError ''verify'')"
  by (simp add: client_get_def client_keywords_def get_keywords_def)

lemma get_icon_None: "get_icon L url = None"
  by (simp add: get_icon_def get_icon_try_def client_get_icon)

lemma find_icon_link_first:
  "soup_find L html ''link'' ''rel'' ''icon'' = Inr (Some link)
     \<Longrightarrow> find_icon_link L html = Inr (Some link)"
  by (simp add: find_icon_link_def)

lemma find_icon_link_second:
  "soup_find L html ''link'' ''rel'' ''icon'' = Inr None
     \<Longrightarrow> find_icon_link L html = soup_find L html ''link'' ''rel'' ''shortcut icon''"
  by (simp add: find_icon_link_def)

section \<open>Properties of the letter icon\<close>

lemma isdigit_nonempty: "isdigit (remove_char c h) \<Longrightarrow> h \<noteq> []"
  by (auto simp add: isdigit_def remove_char_def)

lemma isdigit_dotted_iff:
  "isdigit (remove_char (CHR ''.'') h)
     \<longleftrightarrow> (\<exists>c \<in> set h. c \<noteq> CHR ''.'') \<and> (\<forall>c \<in> set h. c = CHR ''.'' \<or> is_digit_char c)"
  by (auto simp add: isdigit_def remove_char_def list_all_iff filter_empty_conv)

lemma first_upper_Cons: "s \<noteq> [] \<Longrightarrow> first_upper s = Inr (upper [hd s])"
  by (cases s) (simp_all add: first_upper_def)

text \<open>The letter for a URL in which \<^verbatim>\<open>urlparse\<close> finds a host.\<close>

lemma generate_letter_icon_with_host:
  assumes "urlparse L url = Inr p" and "hostname p = Some h"
  shows "(isdigit (remove_char (CHR ''.'') h) \<longrightarrow>
            generate_letter_icon L url = Inr (LetterIcon (upper [hd h])))
       \<and> (\<not> isdigit (remove_char (CHR ''.'') h) \<and> tld_domain L url \<noteq> [] \<longrightarrow>
            generate_letter_icon L url = Inr (LetterIcon (upper [hd (tld_domain L url)])))
       \<and> (\<not> isdigit (remove_char (CHR ''.'') h) \<and> tld_domain L url = [] \<longrightarrow>
            generate_letter_icon L url = Inr (LetterIcon ''U''))"
  using assms
  by (auto simp add: generate_letter_icon_def Let_def first_upper_Cons dest: isdigit_nonempty)

lemma generate_letter_icon_ok:
  assumes "urlparse L url = Inr p" and "hostname p = Some h"
  shows "\<exists>img. generate_letter_icon L url = Inr img"
  using assms
  by (auto simp add: generate_letter_icon_def Let_def first_upper_Cons dest: isdigit_nonempty)

text \<open>Without a host no letter is drawn, whatever the domain label is.\<close>

lemma generate_letter_icon_without_host:
  assumes "urlparse L url = Inr p" and "hostname p = None"
  shows "generate_letter_icon L url = Inl (AttributeError ''replace'')"
  using assms by (simp add: generate_letter_icon_def)

lemma ex_urls:
  "urlparse lib_example ''http://192.168.1.1:8080/x''
     = Inr \<lparr> hostname = Some ''192.168.1.1'', netloc = ''192.168.1.1:8080'' \<rparr>"
  "urlparse lib_example ''http://example.co.uk/''
     = Inr \<lparr> hostname = Some ''example.co.uk'', netloc = ''example.co.uk'' \<rparr>"
  "urlparse lib_example ''http://co.uk/'' = Inr \<lparr> hostname = Some ''co.uk'', netloc = ''co.uk'' \<rparr>"
  "tld_domain lib_example ''http://example.co.uk/'' = ''example''"
  "tld_domain lib_example ''http://co.uk/'' = ''''"
  by (simp_all add: lib_example_def)

lemma ex_digits:
  "isdigit (remove_char (CHR ''.'') ''192.168.1.1'')"
  "\<not> isdigit (remove_char (CHR ''.'') ''example.co.uk'')"
  "\<not> isdigit (remove_char (CHR ''.'') ''co.uk'')"
  by (simp_all add: isdigit_def remove_char_def is_digit_char_def)

lemma generate_letter_icon_examples:
  "generate_letter_icon lib_example ''http://192.168.1.1:8080/x'' = Inr (LetterIcon ''1'')
   \<and> generate_letter_icon lib_example ''http://example.co.uk/'' = Inr (LetterIcon ''E'')
   \<and> generate_letter_icon lib_example ''http://co.uk/'' = Inr (LetterIcon ''U'')"
proof -
  have u: "upper ''1'' = ''1''" "upper ''e'' = ''E''"
    by (simp_all add: upper_def upper_char_def)
  from generate_letter_icon_with_host [OF ex_urls(1), of "''192.168.1.1''"]
       generate_letter_icon_with_host [OF ex_urls(2), of "''example.co.uk''"]
       generate_letter_icon_with_host [OF ex_urls(3), of "''co.uk''"]
       ex_urls ex_digits u
  show ?thesis by simp
qed

text \<open>
  C4. The input \<^verbatim>\<open>example.com\<close> is not an IP address and its domain label is
  \<^verbatim>\<open>example\<close>, so the letter should be \<^verbatim>\<open>E\<close>. \<^verbatim>\<open>urlparse\<close> finds no host in it, and
  \<^verbatim>\<open>generate_letter_icon\<close> raises \<^verbatim>\<open>AttributeError\<close> instead of drawing a letter.
\<close>

theorem generate_letter_icon_no_letter_without_host:
  "tld_domain lib_example ''example.com'' = ''example''
   \<and> urlparse lib_example ''example.com'' = Inr \<lparr> hostname = None, netloc = '''' \<rparr>
   \<and> generate_letter_icon lib_example ''example.com'' = Inl (AttributeError ''replace'')
   \<and> generate_letter_icon lib_example ''example.com'' \<noteq> Inr (LetterIcon ''E'')"
  by (simp add: generate_letter_icon_def lib_example_def)

section \<open>Properties of the fallback path\<close>

lemma endswith_append: "endswith (a @ p) p"
  by (simp add: endswith_def)

lemma endswith_png: "endswith (a @ b @ ''_default.png'') ''.png''"
  by (simp add: endswith_def)

lemma replace_char_append:
  "replace_char a b (xs @ ys) = replace_char a b xs @ replace_char a b ys"
  by (simp add: replace_char_def)

lemma replace_char_notin: "a \<noteq> b \<Longrightarrow> a \<notin> set (replace_char a b xs)"
  by (auto simp add: replace_char_def)

lemma replace_default_png:
  "replace_char (CHR '':'') (CHR ''_'') ''_default.png'' = ''_default.png''"
  by (simp add: replace_char_def)

lemma save_icon_image_default:
  assumes "writable fs (''./icons/'' @ replace_char (CHR '':'') (CHR ''_'') n @ ''_default.png'')"
  shows "save_icon_image fs img (n @ ''_default.png'')
           = Inr (fs \<lparr> files := (files fs)
                     (''./icons/'' @ replace_char (CHR '':'') (CHR ''_'') n @ ''_default.png'' \<mapsto> img) \<rparr>,
                  ''./icons/'' @ replace_char (CHR '':'') (CHR ''_'') n @ ''_default.png'')"
  using assms endswith_png [of "''./icons/''" "replace_char (CHR '':'') (CHR ''_'') n"]
  by (simp add: save_icon_image_def Let_def replace_char_append replace_default_png)

lemma save_icon_image_nonempty:
  "save_icon_image fs img n = Inr (fs', path) \<Longrightarrow> path \<noteq> [] \<and> endswith path ''.png''"
  by (auto simp add: save_icon_image_def Let_def endswith_def split: if_splits)

text \<open>
  The path for a URL that has a host, when the icon directory accepts the write:
  \<^verbatim>\<open>./icons/\<close>, the \<^verbatim>\<open>netloc\<close> with every colon replaced, and \<^verbatim>\<open>_default.png\<close>.
\<close>

lemma resolve_icon_fallback_with_host:
  assumes "urlparse L url = Inr p" and "hostname p = Some h"
    and "writable fs (''./icons/'' @ replace_char (CHR '':'') (CHR ''_'') (netloc p) @ ''_default.png'')"
  shows "\<exists>fs' path. resolve_icon L fs url = Inr (fs', PyStr path)
           \<and> path = ''./icons/'' @ replace_char (CHR '':'') (CHR ''_'') (netloc p) @ ''_default.png''
           \<and> startswith path ''./icons/'' \<and> endswith path ''.png''
           \<and> CHR '':'' \<notin> set path
           \<and> (\<exists>img. files fs' path = Some img)"
proof -
  let ?path = "''./icons/'' @ replace_char (CHR '':'') (CHR ''_'') (netloc p) @ ''_default.png''"
  from generate_letter_icon_ok [OF assms(1,2)]
  obtain img where img: "generate_letter_icon L url = Inr img" by blast
  have r: "resolve_icon L fs url = Inr (fs \<lparr> files := (files fs)(?path \<mapsto> img) \<rparr>, PyStr ?path)"
    by (simp add: resolve_icon_def get_icon_None assms(1) img save_icon_image_default [OF assms(3)])
  have s: "startswith ?path ''./icons/''" by (simp add: startswith_def)
  have e: "endswith ?path ''.png''" by (rule endswith_png)
  have c: "CHR '':'' \<notin> set ?path"
    using replace_char_notin [of "CHR '':''" "CHR ''_''" "netloc p"] by simp
  from r s e c show ?thesis by simp
qed

lemma resolve_icon_fallback_example:
  "\<exists>fs'. resolve_icon lib_example fs_empty ''http://192.168.1.1:8080/x''
             = Inr (fs', PyStr ''./icons/192.168.1.1_8080_default.png'')
        \<and> (\<exists>img. files fs' ''./icons/192.168.1.1_8080_default.png'' = Some img)"
proof -
  have w: "writable fs_empty (''./icons/'' @ replace_char (CHR '':'') (CHR ''_'')
             (netloc \<lparr> hostname = Some ''192.168.1.1'', netloc = ''192.168.1.1:8080'' \<rparr>) @ ''_default.png'')"
    by (simp add: fs_empty_def)
  have p: "''./icons/'' @ replace_char (CHR '':'') (CHR ''_'')
             (netloc \<lparr> hostname = Some ''192.168.1.1'', netloc = ''192.168.1.1:8080'' \<rparr>) @ ''_default.png''
           = ''./icons/192.168.1.1_8080_default.png''"
    by (simp add: replace_char_def)
  from resolve_icon_fallback_with_host [OF ex_urls(1) _ w, of "''192.168.1.1''"]
  show ?thesis unfolding p by auto
qed

text \<open>Every exception that can leave the resolution of the icon.\<close>

lemma resolve_icon_raises:
  assumes "resolve_icon L fs url = Inl e"
  shows "urlparse L url = Inl e
          \<or> (\<exists>p. urlparse L url = Inr p \<and> hostname p = None \<and> e = AttributeError ''replace'')
          \<or> (\<exists>path. e = OSError path \<and> \<not> writable fs path)"
  using assms
  apply (simp add: resolve_icon_def get_icon_None generate_letter_icon_def Let_def first_upper_def
      save_icon_image_def isdigit_def remove_char_def
      split: sum.splits option.splits if_splits list.splits)
  apply auto
  done

text \<open>
  C5. For the input \<^verbatim>\<open>example.com\<close> no icon link is discovered and the icon directory
  accepts every write, yet the resolution returns no path: \<^verbatim>\<open>urlparse\<close> finds no host,
  \<^verbatim>\<open>generate_letter_icon\<close> raises \<^verbatim>\<open>AttributeError\<close> before anything is saved, and no
  file is written.
\<close>

theorem resolve_icon_no_path_without_host:
  "get_icon lib_example ''example.com'' = None
   \<and> writable fs_empty ''./icons/_default.png''
   \<and> resolve_icon lib_example fs_empty ''example.com'' = Inl (AttributeError ''replace'')
   \<and> (\<forall>fs' path. resolve_icon lib_example fs_empty ''example.com'' \<noteq> Inr (fs', PyStr path))"
proof -
  have l: "generate_letter_icon lib_example ''example.com'' = Inl (AttributeError ''replace'')"
    by (simp add: generate_letter_icon_def lib_example_def)
  have r: "resolve_icon lib_example fs_empty ''example.com'' = Inl (AttributeError ''replace'')"
    by (simp add: resolve_icon_def get_icon_None l)
  have w: "writable fs_empty ''./icons/_default.png''"
    by (simp add: fs_empty_def)
  from r w show ?thesis by (simp add: get_icon_None)
qed

section \<open>Properties of icon resolution and creation\<close>

lemma resolve_icon_value:
  assumes "resolve_icon L fs url = Inr (fs', v)"
  shows "\<exists>path img n. v = PyStr path \<and> path \<noteq> [] \<and> save_icon_image fs img n = Inr (fs', path)"
proof -
  from assms have "\<exists>img n path. save_icon_image fs img n = Inr (fs', path) \<and> v = PyStr path"
    by (auto simp add: resolve_icon_def get_icon_None split: sum.splits)
  then obtain img n path where s: "save_icon_image fs img n = Inr (fs', path)"
    and v: "v = PyStr path"
    by blast
  from save_icon_image_nonempty [OF s] have "path \<noteq> []" by simp
  with s v show ?thesis by blast
qed

lemma create_website_row:
  assumes "create_website L fs d w = Inr (fs', d', out)"
  shows "\<exists>v. resolve_icon L fs (wc_url w) = Inr (fs', v)
           \<and> ws_icon_url out = v
           \<and> map row_icon_url (websites d') = map row_icon_url (websites d) @ [v]"
  using assms
  by (auto simp add: create_website_def Let_def to_schema_def split: sum.splits)

text \<open>
  C1. After every call of \<^verbatim>\<open>create_website\<close> that returns, the \<^verbatim>\<open>icon_url\<close> of the new
  row, and of the record returned, is a non-empty string: the path that
  \<^verbatim>\<open>save_icon_image\<close> returned. The other case of the claim, a remote URL discovered by
  \<^verbatim>\<open>get_icon\<close>, does not occur, since \<^verbatim>\<open>get_icon\<close> returns \<^verbatim>\<open>None\<close> on every URL.
\<close>

theorem create_website_icon_url:
  assumes "create_website L fs d website = Inr (fs', d', out)"
  shows "\<exists>path. path \<noteq> [] \<and> ws_icon_url out = PyStr path
           \<and> map row_icon_url (websites d') = map row_icon_url (websites d) @ [PyStr path]
           \<and> (\<exists>img n. save_icon_image fs img n = Inr (fs', path))"
proof -
  from create_website_row [OF assms]
  obtain v where v: "resolve_icon L fs (wc_url website) = Inr (fs', v)" "ws_icon_url out = v"
    "map row_icon_url (websites d') = map row_icon_url (websites d) @ [v]"
    by blast
  from resolve_icon_value [OF v(1)]
  obtain path img n where p: "v = PyStr path" "path \<noteq> []"
    "save_icon_image fs img n = Inr (fs', path)"
    by blast
  show ?thesis
  proof (intro exI conjI)
    show "path \<noteq> []" by (rule p(2))
    show "ws_icon_url out = PyStr path" using v(2) p(1) by simp
    show "map row_icon_url (websites d') = map row_icon_url (websites d) @ [PyStr path]"
      using v(3) p(1) by simp
    show "save_icon_image fs img n = Inr (fs', path)" by (rule p(3))
  qed
qed

lemma resolve_icon_page_a:
  "resolve_icon lib_example fs_empty ''https://a.com/page''
     = Inr (fs_empty \<lparr> files := (files fs_empty)(''./icons/a.com_default.png'' \<mapsto> LetterIcon ''A'') \<rparr>,
            PyStr ''./icons/a.com_default.png'')"
proof -
  have l: "generate_letter_icon lib_example ''https://a.com/page'' = Inr (LetterIcon ''A'')"
    by (simp add: generate_letter_icon_def lib_example_def isdigit_def remove_char_def
        is_digit_char_def first_upper_def upper_def upper_char_def)
  have u: "urlparse lib_example ''https://a.com/page''
             = Inr \<lparr> hostname = Some ''a.com'', netloc = ''a.com'' \<rparr>"
    by (simp add: lib_example_def)
  have s: "save_icon_image fs_empty (LetterIcon ''A'') ''a.com_default.png''
             = Inr (fs_empty \<lparr> files := (files fs_empty)(''./icons/a.com_default.png'' \<mapsto> LetterIcon ''A'') \<rparr>,
                    ''./icons/a.com_default.png'')"
    by (simp add: save_icon_image_def Let_def replace_char_def endswith_def fs_empty_def)
  show ?thesis
    by (simp add: resolve_icon_def get_icon_None l u s)
qed

lemma create_website_page_a:
  "create_website lib_example fs_empty db_empty website_a =
     Inr (fs_empty \<lparr> files := (files fs_empty)(''./icons/a.com_default.png'' \<mapsto> LetterIcon ''A'') \<rparr>,
          \<lparr> websites =
              [\<lparr> row_id = 1, row_name = ''A'', row_url = ''https://a.com/page'',
                 row_icon_url = PyStr ''./icons/a.com_default.png'',
                 row_description = ''A site'', row_order = 1, row_category_id = None \<rparr>],
            categories = Map.empty \<rparr>,
          \<lparr> ws_id = 1, ws_name = ''A'',
            ws_icon_url = PyStr ''./icons/a.com_default.png'',
            ws_description = ''A site'', ws_order = 1, ws_url = ''https://a.com/page'',
            ws_category_id = None, ws_category_name = None \<rparr>)"
proof -
  have f: "fetch_website_description lib_example ''https://a.com/page'' = ''A site''"
    by (simp add: fetch_website_description_def fetch_description_try_def client_get_description)
       (simp add: lib_example_def tag_get_def strip_def is_space_char_def)
  have w: "wc_url website_a = ''https://a.com/page''"
    by (simp add: website_a_def)
  show ?thesis
    by (simp add: create_website_def Let_def w resolve_icon_page_a f)
       (simp add: website_a_def db_empty_def next_id_def to_schema_def category_name_of_def)
qed

theorem create_website_icon_url_witness:
  "\<exists>fs' d' out. create_website lib_example fs_empty db_empty website_a = Inr (fs', d', out)
      \<and> ws_icon_url out = PyStr ''./icons/a.com_default.png''
      \<and> map row_icon_url (websites d') = [PyStr ''./icons/a.com_default.png'']
      \<and> (\<exists>path. path \<noteq> [] \<and> ws_icon_url out = PyStr path
             \<and> map row_icon_url (websites d')
                 = map row_icon_url (websites db_empty) @ [PyStr path]
             \<and> (\<exists>img n. save_icon_image fs_empty img n = Inr (fs', path)))"
  using create_website_icon_url [OF create_website_page_a] create_website_page_a
  by simp

text \<open>
  C2. The page \<^verbatim>\<open>https://a.com/page\<close> is served and holds the icon link \<^verbatim>\<open>/f.ico\<close>, which
  the search for \<^verbatim>\<open>icon\<close> would find. \<^verbatim>\<open>get_icon\<close> still returns \<^verbatim>\<open>None\<close>, because its
  request raises \<^verbatim>\<open>TypeError\<close> before it is sent; the fallback then runs and writes the
  letter icon \<^verbatim>\<open>./icons/a.com_default.png\<close>, which becomes the location.
\<close>

theorem get_icon_misses_icon_link:
  "http_request lib_example ''https://a.com/page'' = Inr \<lparr> is_error = False, resp_text = page_a \<rparr>
   \<and> find_icon_link lib_example page_a = Inr (Some [(''rel'', ''icon''), (''href'', ''/f.ico'')])
   \<and> urljoin lib_example ''https://a.com/page'' ''/f.ico'' = Inr ''https://a.com/f.ico''
   \<and> client_get lib_example [''follow_redirects''] [''verify''] ''https://a.com/page''
       = Inl (TypeError ''verify'')
   \<and> get_icon lib_example ''https://a.com/page'' = None
   \<and> resolve_icon lib_example fs_empty ''https://a.com/page''
       = Inr (fs_empty \<lparr> files := (files fs_empty)(''./icons/a.com_default.png'' \<mapsto> LetterIcon ''A'') \<rparr>,
              PyStr ''./icons/a.com_default.png'')"
proof -
  have h: "http_request lib_example ''https://a.com/page''
             = Inr \<lparr> is_error = False, resp_text = page_a \<rparr>"
    by (simp add: lib_example_def)
  have f: "find_icon_link lib_example page_a = Inr (Some [(''rel'', ''icon''), (''href'', ''/f.ico'')])"
    by (simp add: find_icon_link_def lib_example_def)
  have j: "urljoin lib_example ''https://a.com/page'' ''/f.ico'' = Inr ''https://a.com/f.ico''"
    by (simp add: lib_example_def)
  from h f j client_get_icon [of lib_example "''https://a.com/page''"]
       get_icon_None [of lib_example "''https://a.com/page''"] resolve_icon_page_a
  show ?thesis by simp
qed

text \<open>
  C3. For the input \<^verbatim>\<open>example.com\<close>, which has no scheme and so no host, \<^verbatim>\<open>get_icon\<close>
  returns \<^verbatim>\<open>None\<close>, \<^verbatim>\<open>generate_letter_icon\<close> raises \<^verbatim>\<open>AttributeError\<close>, and the
  exception leaves \<^verbatim>\<open>create_website\<close>: no location is produced and no file is written.
\<close>

theorem resolve_icon_raises_on_hostless_url:
  "get_icon lib_example ''example.com'' = None
   \<and> generate_letter_icon lib_example ''example.com'' = Inl (AttributeError ''replace'')
   \<and> resolve_icon lib_example fs_empty ''example.com'' = Inl (AttributeError ''replace'')
   \<and> create_website lib_example fs_empty db_empty (website_a \<lparr> wc_url := ''example.com'' \<rparr>)
       = Inl (AttributeError ''replace'')"
proof -
  have g: "get_icon lib_example ''example.com'' = None"
    by (rule get_icon_None)
  have l: "generate_letter_icon lib_example ''example.com'' = Inl (AttributeError ''replace'')"
    by (simp add: generate_letter_icon_def lib_example_def)
  have r: "resolve_icon lib_example fs_empty ''example.com'' = Inl (AttributeError ''replace'')"
    by (simp add: resolve_icon_def g l)
  have c: "create_website lib_example fs_empty db_empty (website_a \<lparr> wc_url := ''example.com'' \<rparr>)
       = Inl (AttributeError ''replace'')"
    by (simp add: create_website_def Let_def r)
  from g l r c show ?thesis by simp
qed

end
